theory Spec2Isabelle
  imports Complex_Main
begin

section \<open>Python values used by the notebook\<close>

text \<open>
  The notebook \<^verbatim>\<open>sessions/2_1_chat_eval.ipynb\<close> works on Python strings and on
  dictionaries from field names to strings. A Python \<^verbatim>\<open>str\<close> is a sequence of Unicode
  code points and \<^verbatim>\<open>len\<close> counts them, so a string is modelled as the list of its code
  points; \<open>lit\<close> turns a literal of the source into that form.
\<close>

type_synonym pystr = "nat list"

definition lit :: "string \<Rightarrow> pystr" where
  "lit s = map of_char s"

text \<open>\<^verbatim>\<open>len(s)\<close>: a Python integer, which is unbounded.\<close>

definition len :: "pystr \<Rightarrow> int" where
  "len s = int (length s)"

text \<open>The line feed and the apostrophe of the source's literals.\<close>

definition nl :: string where
  "nl = [CHR 0x0A]"

definition apostrophe :: string where
  "apostrophe = [CHR 0x27]"

type_synonym dict = "pystr \<rightharpoonup> pystr"

text \<open>
  What the code can raise: \<^verbatim>\<open>d[k]\<close> on a missing key raises \<^verbatim>\<open>KeyError(k)\<close>, and a call of
  the hosted chat-completion service can fail with an error of the service.
\<close>

datatype py_error = KeyError pystr | APIError pystr

definition getitem :: "dict \<Rightarrow> pystr \<Rightarrow> py_error + pystr" where
  "getitem d k = (case d k of None \<Rightarrow> Inl (KeyError k) | Some v \<Rightarrow> Inr v)"

text \<open>\<^verbatim>\<open>int(b)\<close> on a Python \<^verbatim>\<open>bool\<close>: \<^verbatim>\<open>True\<close> is 1 and \<^verbatim>\<open>False\<close> is 0.\<close>

definition py_int :: "bool \<Rightarrow> int" where
  "py_int b = (if b then 1 else 0)"


section \<open>The conciseness evaluator\<close>

text \<open>
  \<^verbatim>\<open>
  def conciseness(outputs: dict, reference_outputs: dict) -> bool:
      return int(len(outputs["response"]) < 2 * len(reference_outputs["answer"]))
  \<close>
  The left operand of the comparison is evaluated first, so a missing \<^verbatim>\<open>"response"\<close> is
  reported before a missing \<^verbatim>\<open>"answer"\<close>. The function has no parameter for the example's
  inputs and reads no global.
\<close>

definition conciseness :: "dict \<Rightarrow> dict \<Rightarrow> py_error + int" where
  "conciseness outputs reference_outputs =
     (case getitem outputs (lit ''response'') of
        Inl e \<Rightarrow> Inl e
      | Inr response \<Rightarrow>
          (case getitem reference_outputs (lit ''answer'') of
             Inl e \<Rightarrow> Inl e
           | Inr answer \<Rightarrow> Inr (py_int (len response < 2 * len answer))))"


section \<open>The hosted chat-completion service\<close>

text \<open>
  \<^verbatim>\<open>ChatOpenAI(model=m, temperature=t).invoke(messages).content\<close> is a call of a hosted
  service, which is not part of the notebook. It is a parameter of the model: given the
  model name, the temperature and the role-tagged messages it answers with a text or
  fails, and it may change the state \<open>'w\<close> of the world outside (with a temperature above
  0 the same request need not give the same answer twice).
\<close>

record message =
  role :: pystr
  content :: pystr

type_synonym 'w chat_api =
  "pystr \<Rightarrow> int \<Rightarrow> message list \<Rightarrow> 'w \<Rightarrow> (py_error + pystr) \<times> 'w"


section \<open>The correctness evaluator\<close>

text \<open>
  \<^verbatim>\<open>llm = ChatOpenAI(model="gpt-4.1-2025-04-14", temperature=0)\<close>, the judge, is a global
  of the notebook.
\<close>

definition llm :: "'w chat_api \<Rightarrow> message list \<Rightarrow> 'w \<Rightarrow> (py_error + pystr) \<times> 'w" where
  "llm api = api (lit ''gpt-4.1-2025-04-14'') 0"

definition eval_instructions :: pystr where
  "eval_instructions = lit (nl @
     ''You are an expert data labeler evaluating model outputs for correctness. Your task is to grade the response as CORRECT or INCORRECT based on the following rubric:'' @ nl @
     nl @
     ''<Rubric>'' @ nl @
     ''A correct answer:'' @ nl @
     ''- Provides accurate and complete information'' @ nl @
     ''- Contains no factual errors'' @ nl @
     ''- Addresses all parts of the question'' @ nl @
     ''- Is logically consistent'' @ nl @
     ''- Uses precise and accurate terminology'' @ nl @
     ''</Rubric>'' @ nl)"

text \<open>
  The f-string of \<^verbatim>\<open>correctness\<close>; its continuation lines are indented by four blanks in
  the source, and it ends with a line feed and four blanks.
\<close>

definition user_content :: "pystr \<Rightarrow> pystr \<Rightarrow> pystr \<Rightarrow> pystr" where
  "user_content question answer response =
     lit (''You are grading the following question:'' @ nl @ ''    '') @ question @
     lit (nl @ ''    Here is the real answer:'' @ nl @ ''    '') @ answer @
     lit (nl @ ''    You are grading the following predicted answer:'' @ nl @ ''    '') @ response @
     lit (nl @ ''    Respond with CORRECT or INCORRECT:'' @ nl @ ''    Grade:'' @ nl @ ''    '')"

definition judge_messages :: "pystr \<Rightarrow> pystr \<Rightarrow> pystr \<Rightarrow> message list" where
  "judge_messages question answer response =
     [\<lparr>role = lit ''system'', content = eval_instructions\<rparr>,
      \<lparr>role = lit ''user'', content = user_content question answer response\<rparr>]"

text \<open>
  \<^verbatim>\<open>
  def correctness(inputs: dict, outputs: dict, reference_outputs: dict) -> bool:
      user_content = f"""... {inputs['question']} ... {reference_outputs['answer']}
                         ... {outputs['response']} ..."""
      response = llm.invoke([
              {"role": "system", "content": eval_instructions},
              {"role": "user", "content": user_content},
          ],
      ).content
      return response == "CORRECT"
  \<close>
  The three fields are read in the order of the f-string, before the judge is called; a
  missing one raises \<^verbatim>\<open>KeyError\<close> and the judge is not called.
\<close>

definition correctness ::
  "'w chat_api \<Rightarrow> dict \<Rightarrow> dict \<Rightarrow> dict \<Rightarrow> 'w \<Rightarrow> (py_error + bool) \<times> 'w" where
  "correctness api inputs outputs reference_outputs w =
     (case getitem inputs (lit ''question'') of
        Inl e \<Rightarrow> (Inl e, w)
      | Inr question \<Rightarrow>
     (case getitem reference_outputs (lit ''answer'') of
        Inl e \<Rightarrow> (Inl e, w)
      | Inr answer \<Rightarrow>
     (case getitem outputs (lit ''response'') of
        Inl e \<Rightarrow> (Inl e, w)
      | Inr predicted \<Rightarrow>
     (case llm api (judge_messages question answer predicted) w of
        (Inl e, w') \<Rightarrow> (Inl e, w')
      | (Inr response, w') \<Rightarrow> (Inr (response = lit ''CORRECT''), w')))))"


section \<open>The application and its wrapper\<close>

definition default_instructions :: pystr where
  "default_instructions = lit ''Respond to the users question in a short, concise manner.''"

definition default_model :: pystr where
  "default_model = lit ''gpt-4.1-nano-2025-04-14''"

text \<open>
  \<^verbatim>\<open>
  def my_app(question: str, model: str = "gpt-4.1-nano-2025-04-14",
             instructions: str = default_instructions) -> str:
      llm = ChatOpenAI(model=model, temperature=1)
      return llm.invoke([
          {"role": "system", "content": instructions},
          {"role": "user", "content": question},
      ]).content
  \<close>
\<close>

definition my_app ::
  "'w chat_api \<Rightarrow> pystr \<Rightarrow> pystr \<Rightarrow> pystr \<Rightarrow> 'w \<Rightarrow> (py_error + pystr) \<times> 'w" where
  "my_app api question model instructions w =
     api model 1
       [\<lparr>role = lit ''system'', content = instructions\<rparr>,
        \<lparr>role = lit ''user'', content = question\<rparr>] w"

text \<open>
  \<^verbatim>\<open>
  def ls_target(inputs: str) -> dict:
      return {"response": my_app(inputs["question"])}
  \<close>
  The call leaves \<^verbatim>\<open>model\<close> and \<^verbatim>\<open>instructions\<close> at their defaults.
\<close>

definition ls_target :: "'w chat_api \<Rightarrow> dict \<Rightarrow> 'w \<Rightarrow> (py_error + dict) \<times> 'w" where
  "ls_target api inputs w =
     (case getitem inputs (lit ''question'') of
        Inl e \<Rightarrow> (Inl e, w)
      | Inr question \<Rightarrow>
          (case my_app api question default_model default_instructions w of
             (Inl e, w') \<Rightarrow> (Inl e, w')
           | (Inr answer, w') \<Rightarrow> (Inr [lit ''response'' \<mapsto> answer], w')))"


section \<open>The dataset\<close>

text \<open>
  The five examples handed to \<^verbatim>\<open>client.create_examples\<close>, each a pair of its
  \<^verbatim>\<open>"inputs"\<close> and its \<^verbatim>\<open>"outputs"\<close> dictionary, in the order of the source.
\<close>

definition question_example :: "pystr \<Rightarrow> pystr \<Rightarrow> dict \<times> dict" where
  "question_example q a = ([lit ''question'' \<mapsto> q], [lit ''answer'' \<mapsto> a])"

definition dataset_examples :: "(dict \<times> dict) list" where
  "dataset_examples =
     [question_example
        (lit (''What is NVIDIA'' @ apostrophe @ ''s primary revenue driver?''))
        (lit ''Primarily data center chips and AI accelerators''),
      question_example
        (lit ''What market does AMD compete in?'')
        (lit ''CPUs, GPUs, and data center processors''),
      question_example
        (lit ''Who leads the AI chip market?'')
        (lit ''NVIDIA dominates with over 80% market share''),
      question_example
        (lit (''What is AMD'' @ apostrophe @ ''s main competitive advantage?''))
        (lit ''Cost-effective alternatives to Intel and NVIDIA''),
      question_example
        (lit ''Does NVIDIA or AMD have higher gross margins?'')
        (lit ''NVIDIA typically maintains higher gross margins'')]"


section \<open>The evaluation harness of the specification\<close>

text \<open>
  The notebook hands the example store and the run loop to the hosted platform
  (\<^verbatim>\<open>client.create_examples\<close>, \<^verbatim>\<open>client.evaluate\<close>), whose code is not in the repository.
  The definitions of this section follow the specification's data model (section 3) and
  component design (sections 4.1 and 4.2) instead.
\<close>

text \<open>
  Modelled from the spec: the error kinds of section 7, which no code of the repository
  declares. A recorded failure is an error kind with its message.
\<close>

datatype error_kind =
  DuplicateIdError | TargetInvocationError | EvaluatorInvocationError | SchemaError

type_synonym failure = "error_kind \<times> pystr"

text \<open>
  Modelled from the spec: the Example of section 3, an opaque identifier (here a natural
  number), the input mapping and the optional expected output mapping.
\<close>

record example =
  example_id :: nat
  input :: dict
  expected_output :: "dict option"

text \<open>
  Modelled from the spec: the Observation of section 3, the output the target produced for
  an example, or the Failure Observation of section 4.2 with the error kind and message.
\<close>

datatype observation =
  Observation nat dict
  | FailureObservation nat failure

text \<open>
  Modelled from the spec: the value of a Score, "boolean or numeric".
\<close>

datatype score_value = BoolValue bool | NumValue real

text \<open>
  Modelled from the spec: the Score of section 3 (example id, evaluator name, value,
  optional rationale), or the Failure Score of section 4.2 (example id, evaluator name,
  error kind and message).
\<close>

datatype score =
  Score nat pystr score_value "pystr option"
  | FailureScore nat pystr failure

text \<open>
  Modelled from the spec: a target function, supplied by the caller, maps an example's
  input to an output mapping or fails (a timeout is a failure).
\<close>

type_synonym target = "dict \<Rightarrow> failure + dict"

text \<open>
  Modelled from the spec: a registered evaluator, with the call signature
  (input, output, expected output) of section 4.3. It yields the value and the optional
  rationale of its Score, or fails; the harness adds the example id and the evaluator name.
\<close>

record evaluator =
  evaluator_name :: pystr
  evaluate :: "dict \<Rightarrow> dict \<Rightarrow> dict option \<Rightarrow> failure + score_value \<times> pystr option"

text \<open>
  Modelled from the spec: the RunResult of section 3, the ordered sequence of
  (Example, Observation, Scores) with the run label and the timestamp. The Scores of an
  example are kept in the order of the registered evaluators.
\<close>

type_synonym run_entry = "example \<times> observation \<times> score list"

record run_result =
  entries :: "run_entry list"
  run_label :: pystr
  timestamp :: nat

text \<open>
  Modelled from the spec: the example store of section 4.1, the Examples in insertion
  order.
\<close>

type_synonym store = "example list"

text \<open>
  Modelled from the spec: \<^verbatim>\<open>all()\<close> of section 4.1, the stored Examples in insertion order.
\<close>

definition store_all :: "store \<Rightarrow> example list" where
  "store_all s = s"

text \<open>
  Modelled from the spec: \<^verbatim>\<open>add(example)\<close> of section 4.1. It appends an Example with a
  unique id and fails with \<open>DuplicateIdError\<close> if the id collides with a stored one. The
  store after the call is returned with the outcome.
\<close>

definition store_add :: "example \<Rightarrow> store \<Rightarrow> (error_kind + unit) \<times> store" where
  "store_add ex s =
     (if example_id ex \<in> set (map example_id s) then (Inl DuplicateIdError, s)
      else (Inr (), s @ [ex]))"

text \<open>
  Modelled from the spec: step 2 of section 4.2 for one evaluator. The evaluator is invoked
  on the example's input, the observed output and the expected output; if it fails, a
  Failure Score is recorded.
\<close>

definition score_with :: "example \<Rightarrow> dict \<Rightarrow> evaluator \<Rightarrow> score" where
  "score_with ex out ev =
     (case evaluate ev (input ex) out (expected_output ex) of
        Inl f \<Rightarrow> FailureScore (example_id ex) (evaluator_name ev) f
      | Inr (v, rationale) \<Rightarrow> Score (example_id ex) (evaluator_name ev) v rationale)"

text \<open>
  Modelled from the spec: step 2 of section 4.2, the loop over the registered evaluators;
  the failure of one does not block the others.
\<close>

primrec run_evaluators :: "example \<Rightarrow> dict \<Rightarrow> evaluator list \<Rightarrow> score list" where
  "run_evaluators ex out [] = []"
| "run_evaluators ex out (ev # evs) = score_with ex out ev # run_evaluators ex out evs"

text \<open>
  Modelled from the spec: steps 1 and 2 of section 4.2 for one Example. The target is
  invoked on the example's input; if it fails, a Failure Observation is recorded and the
  evaluators are skipped.
\<close>

definition run_example :: "target \<Rightarrow> evaluator list \<Rightarrow> example \<Rightarrow> run_entry" where
  "run_example tgt evaluators ex =
     (case tgt (input ex) of
        Inl f \<Rightarrow> (ex, FailureObservation (example_id ex) f, [])
      | Inr out \<Rightarrow> (ex, Observation (example_id ex) out, run_evaluators ex out evaluators))"

text \<open>
  Modelled from the spec: the loop of section 4.2 over the Examples, in the order of the
  store's sequence.
\<close>

primrec run_examples :: "target \<Rightarrow> evaluator list \<Rightarrow> example list \<Rightarrow> run_entry list" where
  "run_examples tgt evaluators [] = []"
| "run_examples tgt evaluators (ex # exs) =
     run_example tgt evaluators ex # run_examples tgt evaluators exs"

text \<open>
  Modelled from the spec: \<^verbatim>\<open>run(examples, target, evaluators, run_label)\<close> of section 4.2.
  The reading of the clock that stamps the RunResult is passed in.
\<close>

definition run :: "example list \<Rightarrow> target \<Rightarrow> evaluator list \<Rightarrow> pystr \<Rightarrow> nat \<Rightarrow> run_result" where
  "run examples tgt evaluators label now =
     \<lparr>entries = run_examples tgt evaluators examples, run_label = label, timestamp = now\<rparr>"


section \<open>Properties of the conciseness evaluator\<close>

lemma length_lit: "length (lit s) = length s"
  by (simp add: lit_def)

lemma len_lit: "len (lit s) = int (length s)"
  by (simp add: len_def length_lit)

lemma conciseness_present:
  "outputs (lit ''response'') = Some r \<Longrightarrow> reference_outputs (lit ''answer'') = Some a \<Longrightarrow>
   conciseness outputs reference_outputs = Inr (py_int (len r < 2 * len a))"
  by (simp add: conciseness_def getitem_def)

text \<open>
  Claim C1. When the output has a \<^verbatim>\<open>"response"\<close> field \<open>r\<close> and the expected output an
  \<^verbatim>\<open>"answer"\<close> field \<open>a\<close>, the conciseness score is true exactly when the character
  length of \<open>r\<close> is strictly less than 2 times the character length of \<open>a\<close>; the source
  passes the comparison through \<^verbatim>\<open>int\<close>, so true is the score 1 and false the score 0.
  The factor is the literal 2 of the source. In particular an output of exactly twice the
  expected length scores false, and one that is one character shorter scores true.
\<close>

theorem conciseness_strict_threshold:
  assumes "outputs (lit ''response'') = Some r"
    and "reference_outputs (lit ''answer'') = Some a"
  shows "(conciseness outputs reference_outputs = Inr 1 \<longleftrightarrow> length r < 2 * length a)
       \<and> (conciseness outputs reference_outputs = Inr 0 \<longleftrightarrow> \<not> length r < 2 * length a)
       \<and> (length r = 2 * length a \<longrightarrow> conciseness outputs reference_outputs = Inr 0)
       \<and> (length r + 1 = 2 * length a \<longrightarrow> conciseness outputs reference_outputs = Inr 1)"
proof -
  have lt: "(len r < 2 * len a) = (length r < 2 * length a)"
    unfolding len_def by linarith
  have eq: "conciseness outputs reference_outputs = Inr (py_int (length r < 2 * length a))"
    using assms by (simp add: conciseness_present lt)
  show ?thesis
    unfolding eq by (auto simp: py_int_def)
qed

theorem conciseness_strict_threshold_witness:
  "[lit ''response'' \<mapsto> lit ''abcd''] (lit ''response'') = Some (lit ''abcd'')
   \<and> [lit ''answer'' \<mapsto> lit ''ab''] (lit ''answer'') = Some (lit ''ab'')
   \<and> length (lit ''abcd'') = 2 * length (lit ''ab'')
   \<and> conciseness [lit ''response'' \<mapsto> lit ''abcd''] [lit ''answer'' \<mapsto> lit ''ab''] = Inr 0
   \<and> [lit ''response'' \<mapsto> lit ''abc''] (lit ''response'') = Some (lit ''abc'')
   \<and> length (lit ''abc'') + 1 = 2 * length (lit ''ab'')
   \<and> conciseness [lit ''response'' \<mapsto> lit ''abc''] [lit ''answer'' \<mapsto> lit ''ab''] = Inr 1"
  using conciseness_strict_threshold
          [of "[lit ''response'' \<mapsto> lit ''abcd'']" "lit ''abcd''"
              "[lit ''answer'' \<mapsto> lit ''ab'']" "lit ''ab''"]
        conciseness_strict_threshold
          [of "[lit ''response'' \<mapsto> lit ''abc'']" "lit ''abc''"
              "[lit ''answer'' \<mapsto> lit ''ab'']" "lit ''ab''"]
  by (simp add: length_lit)

text \<open>
  Claim C4. For each of the five reference answers of the dataset (of 47, 38, 43, 47 and
  47 characters), the conciseness evaluator scores the output whose response is the fixed
  string \<^verbatim>\<open>"N/A"\<close>, of length 3, as true (score 1).
\<close>

theorem dataset_fixed_response_concise:
  "length (lit ''N/A'') = 3
   \<and> map (\<lambda>(inputs, reference_outputs).
            map_option length (reference_outputs (lit ''answer''))) dataset_examples
       = [Some 47, Some 38, Some 43, Some 47, Some 47]
   \<and> map (\<lambda>(inputs, reference_outputs).
            conciseness [lit ''response'' \<mapsto> lit ''N/A''] reference_outputs) dataset_examples
       = [Inr 1, Inr 1, Inr 1, Inr 1, Inr 1]"
  by (simp add: dataset_examples_def question_example_def conciseness_present
        len_lit length_lit py_int_def)

text \<open>
  Claim C5. The conciseness evaluator is deterministic. Its result is a function of the
  \<^verbatim>\<open>"response"\<close> field of the output and the \<^verbatim>\<open>"answer"\<close> field of the expected output
  alone: it reads no global and calls no service. So two invocations on the same pair, and
  more generally on two pairs that agree on these two fields, give the same result, be it
  a score or a \<^verbatim>\<open>KeyError\<close>.
\<close>

theorem conciseness_deterministic:
  assumes "outputs' (lit ''response'') = outputs (lit ''response'')"
    and "reference_outputs' (lit ''answer'') = reference_outputs (lit ''answer'')"
  shows "conciseness outputs' reference_outputs' = conciseness outputs reference_outputs"
  using assms by (simp add: conciseness_def getitem_def split: option.splits)

theorem conciseness_deterministic_witness:
  "[lit ''response'' \<mapsto> lit ''N/A''] (lit ''response'')
     = [lit ''response'' \<mapsto> lit ''N/A''] (lit ''response'')
   \<and> [lit ''answer'' \<mapsto> lit ''ab''] (lit ''answer'')
     = [lit ''answer'' \<mapsto> lit ''ab''] (lit ''answer'')
   \<and> conciseness [lit ''response'' \<mapsto> lit ''N/A''] [lit ''answer'' \<mapsto> lit ''ab'']
     = conciseness [lit ''response'' \<mapsto> lit ''N/A''] [lit ''answer'' \<mapsto> lit ''ab'']
   \<and> conciseness [lit ''response'' \<mapsto> lit ''N/A'', lit ''note'' \<mapsto> lit ''x'']
        [lit ''answer'' \<mapsto> lit ''ab'']
     = conciseness [lit ''response'' \<mapsto> lit ''N/A''] [lit ''answer'' \<mapsto> lit ''ab'']"
  using conciseness_deterministic
          [of "[lit ''response'' \<mapsto> lit ''N/A'']" "[lit ''response'' \<mapsto> lit ''N/A'']"
              "[lit ''answer'' \<mapsto> lit ''ab'']" "[lit ''answer'' \<mapsto> lit ''ab'']"]
        conciseness_deterministic
          [of "[lit ''response'' \<mapsto> lit ''N/A'', lit ''note'' \<mapsto> lit ''x'']"
              "[lit ''response'' \<mapsto> lit ''N/A'']"
              "[lit ''answer'' \<mapsto> lit ''ab'']" "[lit ''answer'' \<mapsto> lit ''ab'']"]
  by (simp add: lit_def)

text \<open>
  Claim C9. The result of the conciseness evaluator depends only on the character lengths
  of the \<^verbatim>\<open>"response"\<close> field of the output and of the \<^verbatim>\<open>"answer"\<close> field of the expected
  output: two invocations whose responses have equal length and whose answers have equal
  length give equal results. The example's inputs are no argument of the evaluator.
\<close>

theorem conciseness_depends_on_lengths_only:
  assumes "outputs1 (lit ''response'') = Some r1"
    and "outputs2 (lit ''response'') = Some r2"
    and "reference_outputs1 (lit ''answer'') = Some a1"
    and "reference_outputs2 (lit ''answer'') = Some a2"
    and "length r1 = length r2"
    and "length a1 = length a2"
  shows "conciseness outputs1 reference_outputs1 = conciseness outputs2 reference_outputs2"
  using assms by (simp add: conciseness_present len_def)

theorem conciseness_depends_on_lengths_only_witness:
  "[lit ''response'' \<mapsto> lit ''abc''] (lit ''response'') = Some (lit ''abc'')
   \<and> [lit ''response'' \<mapsto> lit ''N/A''] (lit ''response'') = Some (lit ''N/A'')
   \<and> [lit ''answer'' \<mapsto> lit ''AMD''] (lit ''answer'') = Some (lit ''AMD'')
   \<and> [lit ''answer'' \<mapsto> lit ''GPU''] (lit ''answer'') = Some (lit ''GPU'')
   \<and> length (lit ''abc'') = length (lit ''N/A'')
   \<and> length (lit ''AMD'') = length (lit ''GPU'')
   \<and> conciseness [lit ''response'' \<mapsto> lit ''abc''] [lit ''answer'' \<mapsto> lit ''AMD'']
     = conciseness [lit ''response'' \<mapsto> lit ''N/A''] [lit ''answer'' \<mapsto> lit ''GPU'']"
  using conciseness_depends_on_lengths_only
          [of "[lit ''response'' \<mapsto> lit ''abc'']" "lit ''abc''"
              "[lit ''response'' \<mapsto> lit ''N/A'']" "lit ''N/A''"
              "[lit ''answer'' \<mapsto> lit ''AMD'']" "lit ''AMD''"
              "[lit ''answer'' \<mapsto> lit ''GPU'']" "lit ''GPU''"]
  by (simp add: length_lit)

text \<open>
  Claim C10. When the \<^verbatim>\<open>"answer"\<close> field of the expected output is the empty string, the
  conciseness evaluator scores every response false (score 0), the empty response
  included, and no output mapping scores true.
\<close>

theorem conciseness_empty_answer:
  assumes "reference_outputs (lit ''answer'') = Some []"
  shows "(outputs (lit ''response'') = Some r \<longrightarrow>
            conciseness outputs reference_outputs = Inr 0)
       \<and> conciseness outputs reference_outputs \<noteq> Inr 1"
  using assms
  by (auto simp: conciseness_def getitem_def len_def py_int_def split: option.splits)

theorem conciseness_empty_answer_witness:
  "[lit ''answer'' \<mapsto> []] (lit ''answer'') = Some []
   \<and> [lit ''response'' \<mapsto> []] (lit ''response'') = Some []
   \<and> conciseness [lit ''response'' \<mapsto> []] [lit ''answer'' \<mapsto> []] = Inr 0
   \<and> conciseness [lit ''response'' \<mapsto> []] [lit ''answer'' \<mapsto> []] \<noteq> Inr 1"
  using conciseness_empty_answer
          [of "[lit ''answer'' \<mapsto> []]" "[lit ''response'' \<mapsto> []]" "[]"]
  by simp


section \<open>Properties of the correctness evaluator and of the target wrapper\<close>

text \<open>
  Claim C2. The correctness evaluator decides by exact string equality of the judge's raw
  response with the token \<^verbatim>\<open>CORRECT\<close>: whenever the three fields are present and the judge
  answers, the result is the truth value of that equality, so every response that is not
  exactly the token (another casing, surrounding text) gives false, and nothing is raised.
\<close>

theorem correctness_exact_match:
  assumes "inputs (lit ''question'') = Some q"
    and "reference_outputs (lit ''answer'') = Some a"
    and "outputs (lit ''response'') = Some p"
    and "llm api (judge_messages q a p) w = (Inr judge_response, w')"
  shows "correctness api inputs outputs reference_outputs w
           = (Inr (judge_response = lit ''CORRECT''), w')
       \<and> (judge_response \<noteq> lit ''CORRECT'' \<longrightarrow>
            correctness api inputs outputs reference_outputs w = (Inr False, w'))"
  using assms by (simp add: correctness_def getitem_def)

theorem correctness_exact_match_witness:
  "[lit ''question'' \<mapsto> lit ''Who?''] (lit ''question'') = Some (lit ''Who?'')
   \<and> [lit ''answer'' \<mapsto> lit ''AMD''] (lit ''answer'') = Some (lit ''AMD'')
   \<and> [lit ''response'' \<mapsto> lit ''N/A''] (lit ''response'') = Some (lit ''N/A'')
   \<and> llm (\<lambda>model temperature messages w. (Inr (lit ''correct''), w))
        (judge_messages (lit ''Who?'') (lit ''AMD'') (lit ''N/A'')) ()
       = (Inr (lit ''correct''), ())
   \<and> lit ''correct'' \<noteq> lit ''CORRECT''
   \<and> correctness (\<lambda>model temperature messages w. (Inr (lit ''correct''), w))
        [lit ''question'' \<mapsto> lit ''Who?''] [lit ''response'' \<mapsto> lit ''N/A'']
        [lit ''answer'' \<mapsto> lit ''AMD''] ()
       = (Inr False, ())
   \<and> lit ''Grade: CORRECT'' \<noteq> lit ''CORRECT''
   \<and> correctness (\<lambda>model temperature messages w. (Inr (lit ''Grade: CORRECT''), w))
        [lit ''question'' \<mapsto> lit ''Who?''] [lit ''response'' \<mapsto> lit ''N/A'']
        [lit ''answer'' \<mapsto> lit ''AMD''] ()
       = (Inr False, ())
   \<and> correctness (\<lambda>model temperature messages w. (Inr (lit ''CORRECT''), w))
        [lit ''question'' \<mapsto> lit ''Who?''] [lit ''response'' \<mapsto> lit ''N/A'']
        [lit ''answer'' \<mapsto> lit ''AMD''] ()
       = (Inr True, ())"
  using correctness_exact_match
          [of "[lit ''question'' \<mapsto> lit ''Who?'']" "lit ''Who?''"
              "[lit ''answer'' \<mapsto> lit ''AMD'']" "lit ''AMD''"
              "[lit ''response'' \<mapsto> lit ''N/A'']" "lit ''N/A''"
              "\<lambda>model temperature messages w. (Inr (lit ''correct''), w)"
              "()" "lit ''correct''" "()"]
        correctness_exact_match
          [of "[lit ''question'' \<mapsto> lit ''Who?'']" "lit ''Who?''"
              "[lit ''answer'' \<mapsto> lit ''AMD'']" "lit ''AMD''"
              "[lit ''response'' \<mapsto> lit ''N/A'']" "lit ''N/A''"
              "\<lambda>model temperature messages w. (Inr (lit ''Grade: CORRECT''), w)"
              "()" "lit ''Grade: CORRECT''" "()"]
        correctness_exact_match
          [of "[lit ''question'' \<mapsto> lit ''Who?'']" "lit ''Who?''"
              "[lit ''answer'' \<mapsto> lit ''AMD'']" "lit ''AMD''"
              "[lit ''response'' \<mapsto> lit ''N/A'']" "lit ''N/A''"
              "\<lambda>model temperature messages w. (Inr (lit ''CORRECT''), w)"
              "()" "lit ''CORRECT''" "()"]
  by (simp add: llm_def lit_def)

text \<open>
  Claim C3. Applied to an input mapping with a \<^verbatim>\<open>"question"\<close> field, the target wrapper
  returns exactly the one-field mapping from \<^verbatim>\<open>"response"\<close> to the answer the application
  gives for that question (with the default model and instructions).
\<close>

theorem ls_target_response_field:
  assumes "inputs (lit ''question'') = Some q"
    and "my_app api q default_model default_instructions w = (Inr answer, w')"
  shows "ls_target api inputs w = (Inr [lit ''response'' \<mapsto> answer], w')
       \<and> [lit ''response'' \<mapsto> answer] (lit ''response'') = Some answer
       \<and> dom [lit ''response'' \<mapsto> answer] = {lit ''response''}"
  using assms by (simp add: ls_target_def getitem_def)

theorem ls_target_response_field_witness:
  "[lit ''question'' \<mapsto> lit ''Who?''] (lit ''question'') = Some (lit ''Who?'')
   \<and> my_app (\<lambda>model temperature messages w. (Inr (content (last messages)), w))
        (lit ''Who?'') default_model default_instructions () = (Inr (lit ''Who?''), ())
   \<and> ls_target (\<lambda>model temperature messages w. (Inr (content (last messages)), w))
        [lit ''question'' \<mapsto> lit ''Who?''] ()
       = (Inr [lit ''response'' \<mapsto> lit ''Who?''], ())"
  using ls_target_response_field
          [of "[lit ''question'' \<mapsto> lit ''Who?'']" "lit ''Who?''"
              "\<lambda>model temperature messages w. (Inr (content (last messages)), w)"
              "()" "lit ''Who?''" "()"]
  by (simp add: my_app_def)


section \<open>Properties of the harness of the specification\<close>

lemma run_examples_map: "run_examples tgt evs exs = map (run_example tgt evs) exs"
  by (induction exs) simp_all

lemma run_examples_append:
  "run_examples tgt evs (xs @ ys) = run_examples tgt evs xs @ run_examples tgt evs ys"
  by (simp add: run_examples_map)

text \<open>
  Claim C7. If the target fails on an example, the run records for that example a Failure
  Observation with the failure and no Scores, and goes on: the examples before it and
  after it get the entries they get in runs of their own, and the run has one entry for
  every example.
\<close>

theorem run_target_failure_isolated:
  assumes "tgt (input ex) = Inl f"
  shows "entries (run (earlier @ ex # later) tgt evaluators label now)
           = entries (run earlier tgt evaluators label now)
             @ (ex, FailureObservation (example_id ex) f, [])
             # entries (run later tgt evaluators label now)
       \<and> length (entries (run (earlier @ ex # later) tgt evaluators label now))
           = length (earlier @ ex # later)"
proof -
  have failed: "run_example tgt evaluators ex = (ex, FailureObservation (example_id ex) f, [])"
    using assms by (simp add: run_example_def)
  have split: "entries (run (earlier @ ex # later) tgt evaluators label now)
           = entries (run earlier tgt evaluators label now)
             @ (ex, FailureObservation (example_id ex) f, [])
             # entries (run later tgt evaluators label now)"
    by (simp add: run_def run_examples_append failed)
  have len: "length (entries (run (earlier @ ex # later) tgt evaluators label now))
           = length (earlier @ ex # later)"
    by (simp add: run_def run_examples_map)
  from split len show ?thesis ..
qed

theorem run_target_failure_isolated_witness:
  "(\<lambda>i. case i (lit ''question'') of
           None \<Rightarrow> Inl (SchemaError, lit ''question'')
         | Some q \<Rightarrow> Inr [lit ''response'' \<mapsto> q])
     (input \<lparr>example_id = 1, input = Map.empty, expected_output = None\<rparr>)
     = Inl (SchemaError, lit ''question'')
   \<and> entries
       (run ([] @ \<lparr>example_id = 1, input = Map.empty, expected_output = None\<rparr>
               # [\<lparr>example_id = 2, input = [lit ''question'' \<mapsto> lit ''Who?''],
                    expected_output = None\<rparr>])
            (\<lambda>i. case i (lit ''question'') of
                    None \<Rightarrow> Inl (SchemaError, lit ''question'')
                  | Some q \<Rightarrow> Inr [lit ''response'' \<mapsto> q])
            [\<lparr>evaluator_name = lit ''always'',
              evaluate = (\<lambda>i out e. Inr (BoolValue True, None))\<rparr>]
            (lit ''run'') 0)
     = [(\<lparr>example_id = 1, input = Map.empty, expected_output = None\<rparr>,
         FailureObservation 1 (SchemaError, lit ''question''), []),
        (\<lparr>example_id = 2, input = [lit ''question'' \<mapsto> lit ''Who?''],
           expected_output = None\<rparr>,
         Observation 2 [lit ''response'' \<mapsto> lit ''Who?''],
         [Score 2 (lit ''always'') (BoolValue True) None])]"
  using run_target_failure_isolated
          [of "\<lambda>i. case i (lit ''question'') of
                      None \<Rightarrow> Inl (SchemaError, lit ''question'')
                    | Some q \<Rightarrow> Inr [lit ''response'' \<mapsto> q]"
              "\<lparr>example_id = 1, input = Map.empty, expected_output = None\<rparr>"
              "(SchemaError, lit ''question'')"
              "[]"
              "[\<lparr>example_id = 2, input = [lit ''question'' \<mapsto> lit ''Who?''],
                  expected_output = None\<rparr>]"
              "[\<lparr>evaluator_name = lit ''always'',
                 evaluate = (\<lambda>i out e. Inr (BoolValue True, None))\<rparr>]"
              "lit ''run''" 0]
  by (simp add: run_def run_example_def score_with_def)

text \<open>
  Claim C8. Adding an example whose id is the id of a stored example fails with
  \<open>DuplicateIdError\<close> and leaves the store as it was: the stored examples afterwards are
  exactly those stored before.
\<close>

theorem store_add_duplicate_rejected:
  assumes "example_id ex \<in> set (map example_id (store_all s))"
  shows "fst (store_add ex s) = Inl DuplicateIdError
       \<and> snd (store_add ex s) = s
       \<and> store_all (snd (store_add ex s)) = store_all s"
  using assms by (simp add: store_add_def store_all_def)

theorem store_add_duplicate_rejected_witness:
  "example_id \<lparr>example_id = 7, input = [lit ''question'' \<mapsto> lit ''Why?''],
                expected_output = None\<rparr>
     \<in> set (map example_id
          (store_all [\<lparr>example_id = 7, input = [lit ''question'' \<mapsto> lit ''Who?''],
                        expected_output = None\<rparr>]))
   \<and> store_add \<lparr>example_id = 7, input = [lit ''question'' \<mapsto> lit ''Why?''],
                  expected_output = None\<rparr>
        [\<lparr>example_id = 7, input = [lit ''question'' \<mapsto> lit ''Who?''],
           expected_output = None\<rparr>]
     = (Inl DuplicateIdError,
        [\<lparr>example_id = 7, input = [lit ''question'' \<mapsto> lit ''Who?''],
           expected_output = None\<rparr>])"
  using store_add_duplicate_rejected
          [of "\<lparr>example_id = 7, input = [lit ''question'' \<mapsto> lit ''Why?''],
                 expected_output = None\<rparr>"
              "[\<lparr>example_id = 7, input = [lit ''question'' \<mapsto> lit ''Who?''],
                  expected_output = None\<rparr>]"]
  by (simp add: store_all_def prod_eq_iff)


end
